theory Spec2Isabelle
  imports Main
begin

section \<open>Python values used by the tutorial scripts\<close>

text \<open>
  A Python \<open>str\<close> is modelled as a HOL \<open>string\<close> whose characters are read as the
  code points below 256. The characters that matter below are written by code:
  \<open>CHR 0x0A\<close> is the line feed, \<open>CHR 0x5C\<close> the backslash, \<open>CHR 0x27\<close> the single
  quote and \<open>CHR 0x22\<close> the double quote.
\<close>

definition newline :: char where
  "newline = CHR 0x0A"

definition backslash :: char where
  "backslash = CHR 0x5C"

definition sq :: char where
  "sq = CHR 0x27"

definition dq :: char where
  "dq = CHR 0x22"

text \<open>\<open>sep.join(xs)\<close> of Python.\<close>

fun join :: "string \<Rightarrow> string list \<Rightarrow> string" where
  "join sep [] = []"
| "join sep [x] = x"
| "join sep (x # y # ys) = x @ sep @ join sep (y # ys)"

text \<open>
  \<open>s.lower()\<close>: on the code points below 256 it moves \<open>A\<close>..\<open>Z\<close> and the capital
  letters of the Latin-1 block (192..222 without the multiplication sign 215) up by 32
  and leaves every other character as it is.
\<close>

definition lower_char :: "char \<Rightarrow> char" where
  "lower_char c =
     (let n = (of_char c :: nat)
      in if (65 \<le> n \<and> n \<le> 90) \<or> (192 \<le> n \<and> n \<le> 222 \<and> n \<noteq> 215)
         then char_of (n + 32) else c)"

definition lower :: "string \<Rightarrow> string" where
  "lower s = map lower_char s"

text \<open>\<open>str(n)\<close> of a natural number and of an integer, in decimal.\<close>

definition digit_char :: "nat \<Rightarrow> char" where
  "digit_char d = char_of (48 + d)"

fun str_nat :: "nat \<Rightarrow> string" where
  "str_nat n =
     (if n < 10 then [digit_char n] else str_nat (n div 10) @ [digit_char (n mod 10)])"

declare str_nat.simps [simp del]

definition str_int :: "int \<Rightarrow> string" where
  "str_int i = (if i < 0 then CHR ''-'' # str_nat (nat (- i)) else str_nat (nat i))"

text \<open>
  What \<open>json.load\<close> returns: \<open>None\<close>, booleans, integers, floats, strings, lists and
  dictionaries with string keys. A dictionary is an association list in insertion
  order. A float is kept as the text that \<open>repr\<close> gives for it.
\<close>

datatype pyval =
    PyNone
  | PyBool bool
  | PyInt int
  | PyFloat string
  | PyStr string
  | PyList "pyval list"
  | PyDict "(string \<times> pyval) list"

text \<open>
  \<open>repr\<close> of a string: double quotes when the string holds a single quote and no double
  quote, single quotes otherwise; the backslash, the chosen quote, tab, line feed and
  carriage return are escaped with a backslash, any other character that is not
  printable as \<open>\xNN\<close>.
\<close>

definition hex_digit :: "nat \<Rightarrow> char" where
  "hex_digit d = (if d < 10 then char_of (48 + d) else char_of (87 + d))"

definition isprintable :: "char \<Rightarrow> bool" where
  "isprintable c =
     (let n = (of_char c :: nat)
      in (32 \<le> n \<and> n \<le> 126) \<or> (161 \<le> n \<and> n \<noteq> 173))"

definition escape_char :: "char \<Rightarrow> char \<Rightarrow> string" where
  "escape_char q c =
     (if c = backslash then [backslash, backslash]
      else if c = q then [backslash, q]
      else if c = CHR 0x09 then [backslash, CHR ''t'']
      else if c = newline then [backslash, CHR ''n'']
      else if c = CHR 0x0D then [backslash, CHR ''r'']
      else if \<not> isprintable c then
        [backslash, CHR ''x'', hex_digit (of_char c div 16), hex_digit (of_char c mod 16)]
      else [c])"

definition repr_str :: "string \<Rightarrow> string" where
  "repr_str s =
     (let q = (if sq \<in> set s \<and> dq \<notin> set s then dq else sq)
      in [q] @ concat (map (escape_char q) s) @ [q])"

fun repr :: "pyval \<Rightarrow> string" where
  "repr PyNone = ''None''"
| "repr (PyBool b) = (if b then ''True'' else ''False'')"
| "repr (PyInt i) = str_int i"
| "repr (PyFloat s) = s"
| "repr (PyStr s) = repr_str s"
| "repr (PyList xs) = ''['' @ join '', '' (map repr xs) @ '']''"
| "repr (PyDict kvs) =
     ''{'' @ join '', '' (map (\<lambda>(k, v). repr_str k @ '': '' @ repr v) kvs) @ ''}''"

text \<open>\<open>str(v)\<close>: a string is itself, every other value is its \<open>repr\<close>.\<close>

definition str :: "pyval \<Rightarrow> string" where
  "str v = (case v of PyStr s \<Rightarrow> s | _ \<Rightarrow> repr v)"

text \<open>The name of a value's type, as it appears in the interpreter's messages.\<close>

fun type_name :: "pyval \<Rightarrow> string" where
  "type_name PyNone = ''NoneType''"
| "type_name (PyBool b) = ''bool''"
| "type_name (PyInt i) = ''int''"
| "type_name (PyFloat s) = ''float''"
| "type_name (PyStr s) = ''str''"
| "type_name (PyList xs) = ''list''"
| "type_name (PyDict kvs) = ''dict''"

section \<open>Exceptions, the trace of external calls, and computations\<close>

text \<open>
  The exceptions the scripts can meet, each with the text of \<open>str(e)\<close>. The scripts tell
  apart \<open>IndexError\<close> and \<open>AttributeError\<close> (caught together in \<open>main\<close>), the class
  \<open>Exception\<close> (caught in the chat loop) and what lies outside it: \<open>NonException\<close>
  stands for \<open>KeyboardInterrupt\<close>, \<open>SystemExit\<close> and a cancelled task.
\<close>

datatype exn =
    IndexError string
  | AttributeError string
  | TypeError string
  | ValueError string
  | EOFError string
  | OtherException string
  | NonException string

fun exn_str :: "exn \<Rightarrow> string" where
  "exn_str (IndexError m) = m"
| "exn_str (AttributeError m) = m"
| "exn_str (TypeError m) = m"
| "exn_str (ValueError m) = m"
| "exn_str (EOFError m) = m"
| "exn_str (OtherException m) = m"
| "exn_str (NonException m) = m"

fun is_Exception :: "exn \<Rightarrow> bool" where
  "is_Exception (NonException m) = False"
| "is_Exception e = True"

fun is_IndexError_or_AttributeError :: "exn \<Rightarrow> bool" where
  "is_IndexError_or_AttributeError (IndexError m) = True"
| "is_IndexError_or_AttributeError (AttributeError m) = True"
| "is_IndexError_or_AttributeError e = False"

text \<open>The search results of the graph library: only the attributes the scripts read.
  A date is kept as the text that printing it gives.\<close>

record entity_edge =
  edge_uuid :: string
  fact :: string
  valid_at :: "string option"
  invalid_at :: "string option"
  source_node_uuid :: string

record entity_node =
  node_uuid :: string
  node_name :: string
  summary :: string
  labels :: "string list"
  created_at :: string
  attributes :: "(string \<times> string) list"

datatype episode_type = EpisodeType_message | EpisodeType_json | EpisodeType_text

text \<open>The keyword arguments of \<open>add_episode\<close>, the reference time (the clock) apart.\<close>

record episode =
  name :: pyval
  episode_body :: string
  source_description :: string
  source :: episode_type

datatype search_config =
    NODE_HYBRID_SEARCH_EPISODE_MENTIONS
  | NODE_HYBRID_SEARCH_RRF_limit nat

text \<open>The conversation state of the agent, and the message a turn starts from.\<close>

record chat_message =
  role :: string
  content :: string

record State =
  messages :: "chat_message list"
  user_name :: string
  user_node_uuid :: "string option"
  manybirds_node_uuid :: "string option"

text \<open>
  What the graph execution streams back: each streamed item maps node names to updates;
  only the values are read. An update may have no \<open>messages\<close> key (\<open>None\<close> here); a
  message is an \<open>AIMessage\<close> or of another class, and its content a string or not.
\<close>

datatype msg_content = StrContent string | NonStrContent

datatype message = AIMessage msg_content | OtherMessage msg_content

type_synonym node_update = "message list option"

type_synonym stream_event = "node_update list"

datatype level = INFO | WARNING | ERROR

text \<open>What a run does to the outside, in order.\<close>

datatype event =
    Graphiti string string string
  | Input string
  | Print string
  | Log level string
  | ClearData
  | BuildIndices
  | PathExists string
  | LoadProducts string
  | AddEpisode episode
  | NodeSearch string search_config
  | EdgeSearch string "string option" "nat option"
  | Astream nat State
  | Close

text \<open>
  Everything outside the scripts answers through this record: the lines typed on the
  terminal, and for each external call either the exception it raises or its result.
  A node search may answer with an object that has no \<open>nodes\<close> attribute (\<open>None\<close> here).
  A graph execution streams its items and then ends or raises.
\<close>

record world =
  stdin :: "string list"
  clear_data :: "exn option"
  build_indices_and_constraints :: "exn option"
  json_file_path :: string
  json_file_exists :: bool
  json_products :: "exn + pyval"
  add_episode :: "episode \<Rightarrow> exn option"
  node_search :: "string \<Rightarrow> search_config \<Rightarrow> exn + entity_node list option"
  edge_search :: "string \<Rightarrow> string option \<Rightarrow> nat option \<Rightarrow> exn + entity_edge list"
  astream :: "nat \<Rightarrow> State \<Rightarrow> stream_event list \<times> exn option"
  close :: "exn option"

text \<open>A computation gives the trace of what it did and either raises or returns.\<close>

type_synonym 'a comp = "event list \<times> (exn + 'a)"

definition ret :: "'a \<Rightarrow> 'a comp" where
  "ret x = ([], Inr x)"

definition raise :: "exn \<Rightarrow> 'a comp" where
  "raise e = ([], Inl e)"

definition emit :: "event \<Rightarrow> unit comp" where
  "emit ev = ([ev], Inr ())"

fun bind :: "'a comp \<Rightarrow> ('a \<Rightarrow> 'b comp) \<Rightarrow> 'b comp" where
  "bind (t, Inl e) f = (t, Inl e)"
| "bind (t, Inr x) f = (case f x of (t', r) \<Rightarrow> (t @ t', r))"

text \<open>\<open>try: m except <classes p> as e: h e\<close>.\<close>

fun catch :: "(exn \<Rightarrow> bool) \<Rightarrow> 'a comp \<Rightarrow> (exn \<Rightarrow> 'a comp) \<Rightarrow> 'a comp" where
  "catch p (t, Inl e) h = (if p e then (case h e of (t', r) \<Rightarrow> (t @ t', r)) else (t, Inl e))"
| "catch p (t, Inr x) h = (t, Inr x)"

text \<open>\<open>try: m finally: c\<close>: \<open>c\<close> runs on every path; when it raises, its exception wins.\<close>

fun finally_do :: "'a comp \<Rightarrow> unit comp \<Rightarrow> 'a comp" where
  "finally_do (t, r) c =
     (case c of (t', Inl e) \<Rightarrow> (t @ t', Inl e) | (t', Inr u) \<Rightarrow> (t @ t', r))"

text \<open>An awaited external call that returns nothing, and one that returns a value.\<close>

definition await_unit :: "event \<Rightarrow> exn option \<Rightarrow> unit comp" where
  "await_unit ev r = (case r of None \<Rightarrow> ([ev], Inr ()) | Some e \<Rightarrow> ([ev], Inl e))"

definition await_value :: "event \<Rightarrow> exn + 'a \<Rightarrow> 'a comp" where
  "await_value ev r = ([ev], r)"

definition print :: "string \<Rightarrow> unit comp" where
  "print s = emit (Print (s @ [newline]))"

definition print_end_empty :: "string \<Rightarrow> unit comp" where
  "print_end_empty s = emit (Print s)"

definition logger_info :: "string \<Rightarrow> unit comp" where
  "logger_info m = emit (Log INFO m)"

definition logger_warning :: "string \<Rightarrow> unit comp" where
  "logger_warning m = emit (Log WARNING m)"

definition logger_error :: "string \<Rightarrow> unit comp" where
  "logger_error m = emit (Log ERROR m)"

text \<open>\<open>input(prompt)\<close> takes the next line typed, and raises \<open>EOFError\<close> when there is
  none. It returns the line and the lines still to come.\<close>

definition input :: "string \<Rightarrow> string list \<Rightarrow> (string \<times> string list) comp" where
  "input prompt lines =
     (case lines of
        [] \<Rightarrow> ([Input prompt], Inl (EOFError ''EOF when reading a line''))
      | l # ls \<Rightarrow> ([Input prompt], Inr (l, ls)))"

section \<open>advanced/tutorial.py\<close>

subsection \<open>Configuration\<close>

text \<open>\<open>os.environ.get(key, default)\<close> on the environment, a map from names to values.\<close>

definition environ_get :: "(string \<rightharpoonup> string) \<Rightarrow> string \<Rightarrow> string \<Rightarrow> string" where
  "environ_get environ key dflt = (case environ key of None \<Rightarrow> dflt | Some v \<Rightarrow> v)"

definition neo4j_uri :: "(string \<rightharpoonup> string) \<Rightarrow> string" where
  "neo4j_uri environ = environ_get environ ''NEO4J_URI'' ''bolt://localhost:7687''"

definition neo4j_user :: "(string \<rightharpoonup> string) \<Rightarrow> string" where
  "neo4j_user environ = environ_get environ ''NEO4J_USER'' ''neo4j''"

definition neo4j_password :: "(string \<rightharpoonup> string) \<Rightarrow> string" where
  "neo4j_password environ = environ_get environ ''NEO4J_PASSWORD'' ''password''"

text \<open>The module creates its client when it is loaded.\<close>

definition advanced_client :: "(string \<rightharpoonup> string) \<Rightarrow> unit comp" where
  "advanced_client environ =
     emit (Graphiti (neo4j_uri environ) (neo4j_user environ) (neo4j_password environ))"

subsection \<open>The helper that formats facts, and the tool\<close>

text \<open>
  \<^verbatim>\<open>return '- ' + '\\n- '.join([edge.fact for edge in entities])\<close>
  The separator literal of the source is written with a doubled backslash, so it is the
  four characters backslash, \<open>n\<close>, \<open>-\<close>, space.
\<close>

definition facts_separator :: string where
  "facts_separator = [backslash, CHR ''n'', CHR ''-'', CHR '' '']"

definition edges_to_facts_string :: "entity_edge list \<Rightarrow> string" where
  "edges_to_facts_string entities = ''- '' @ join facts_separator (map fact entities)"

definition get_shoe_data :: "world \<Rightarrow> string \<Rightarrow> State \<Rightarrow> string comp" where
  "get_shoe_data w query state =
     bind (logger_info (''Tool `get_shoe_data` called with query: '' @ query)) (\<lambda>_.
     bind (await_value (EdgeSearch query (manybirds_node_uuid state) (Some 10))
             (edge_search w query (manybirds_node_uuid state) (Some 10))) (\<lambda>edge_results.
     ret (edges_to_facts_string edge_results)))"

subsection \<open>setup_database\<close>

text \<open>\<open>result.nodes[0].uuid\<close>.\<close>

definition first_node_uuid :: "entity_node list option \<Rightarrow> string comp" where
  "first_node_uuid result =
     (case result of
        None \<Rightarrow> raise (AttributeError (sq # ''NoneType'' @ sq # '' object has no attribute ''
                         @ sq # ''nodes'' @ [sq]))
      | Some [] \<Rightarrow> raise (IndexError ''list index out of range'')
      | Some (n # ns) \<Rightarrow> ret (node_uuid n))"

text \<open>What \<open>enumerate(products)\<close> runs over: the items of a list, the keys of a
  dictionary, the characters of a string; any other value is not iterable.\<close>

definition iterate :: "pyval \<Rightarrow> pyval list comp" where
  "iterate v =
     (case v of
        PyList xs \<Rightarrow> ret xs
      | PyDict kvs \<Rightarrow> ret (map (\<lambda>(k, x). PyStr k) kvs)
      | PyStr s \<Rightarrow> ret (map (\<lambda>c. PyStr [c]) s)
      | _ \<Rightarrow> raise (TypeError (sq # type_name v @ sq # '' object is not iterable'')))"

text \<open>\<open>{k: v for k, v in product.items() if k != 'images'}\<close>.\<close>

definition without_images :: "(string \<times> pyval) list \<Rightarrow> (string \<times> pyval) list" where
  "without_images items = filter (\<lambda>(k, v). k \<noteq> ''images'') items"

text \<open>The arguments of the \<open>add_episode\<close> call for the product at index \<open>i\<close>;
  \<open>product.get\<close> fails on a value that is not a dictionary.\<close>

definition product_episode :: "nat \<Rightarrow> pyval \<Rightarrow> episode comp" where
  "product_episode i product =
     (case product of
        PyDict items \<Rightarrow>
          ret \<lparr>name = (case map_of items ''title'' of
                          None \<Rightarrow> PyStr (''Product '' @ str_nat i)
                        | Some title \<Rightarrow> title),
               episode_body = str (PyDict (without_images items)),
               source_description = ''ManyBirds products'',
               source = EpisodeType_json\<rparr>
      | _ \<Rightarrow> raise (AttributeError (sq # type_name product @ sq # '' object has no attribute ''
                       @ sq # ''get'' @ [sq])))"

fun ingest_products :: "world \<Rightarrow> nat \<Rightarrow> pyval list \<Rightarrow> unit comp" where
  "ingest_products w i [] = ret ()"
| "ingest_products w i (product # rest) =
     bind (product_episode i product) (\<lambda>ep.
     bind (await_unit (AddEpisode ep) (add_episode w ep)) (\<lambda>_.
     ingest_products w (Suc i) rest))"

definition search_first_uuid :: "world \<Rightarrow> string \<Rightarrow> string comp" where
  "search_first_uuid w query =
     bind (await_value (NodeSearch query NODE_HYBRID_SEARCH_EPISODE_MENTIONS)
             (node_search w query NODE_HYBRID_SEARCH_EPISODE_MENTIONS)) (\<lambda>node_list.
     first_node_uuid node_list)"

definition user_creation_episode :: episode where
  "user_creation_episode =
     \<lparr>name = PyStr ''User Creation'',
      episode_body = ''jess'' @ '' is interested in buying a pair of shoes'',
      source_description = ''SalesBot'',
      source = EpisodeType_text\<rparr>"

definition setup_database :: "world \<Rightarrow> (string option \<times> string option) comp" where
  "setup_database w =
     bind (logger_info ''Setting up the database. This may take a moment...'') (\<lambda>_.
     bind (logger_warning ''This will clear all existing data in the graph!'') (\<lambda>_.
     bind (await_unit ClearData (clear_data w)) (\<lambda>_.
     bind (await_unit BuildIndices (build_indices_and_constraints w)) (\<lambda>_.
     bind (logger_info ''Database cleared and schema built.'') (\<lambda>_.
     bind (emit (PathExists (json_file_path w))) (\<lambda>_.
     if \<not> json_file_exists w then
       bind (logger_error (''Product data not found at '' @ json_file_path w)) (\<lambda>_.
       ret (None, None))
     else
       bind (await_value (LoadProducts (json_file_path w)) (json_products w)) (\<lambda>products.
       bind (iterate products) (\<lambda>items.
       bind (ingest_products w 0 items) (\<lambda>_.
       bind (logger_info (str_nat (length items) @ '' products ingested.'')) (\<lambda>_.
       bind (await_unit (AddEpisode user_creation_episode)
               (add_episode w user_creation_episode)) (\<lambda>_.
       bind (search_first_uuid w ''jess'') (\<lambda>user_node_uuid.
       bind (search_first_uuid w ''ManyBirds'') (\<lambda>manybirds_node_uuid.
       bind (logger_info ''User node and brand node created.'') (\<lambda>_.
       ret (Some user_node_uuid, Some manybirds_node_uuid)))))))))))))))"

subsection \<open>main\<close>

definition setup_prompt :: string where
  "setup_prompt = ''Do you want to run the initial database setup? (yes/no) ''
     @ ''This will wipe your database. '' @ [backslash, CHR ''n'']"

text \<open>The message of the \<open>except\<close> clause of \<open>main\<close>.\<close>

definition could_not_find :: string where
  "could_not_find = ''Could not find existing user/brand nodes. ''
     @ ''Please run the setup by answering '' @ dq # ''yes'' @ dq # ''.''"

text \<open>
  The first part of \<open>main\<close>, from the answer to the prompt on: the two identifiers, or
  \<open>None\<close> where \<open>main\<close> returns.
\<close>

definition resolve_ids :: "world \<Rightarrow> string \<Rightarrow> (string option \<times> string option) option comp" where
  "resolve_ids w run_setup =
     (if lower run_setup = ''yes'' then
        bind (setup_database w) (\<lambda>(user_uuid, manybirds_uuid).
        if user_uuid = None then ret None else ret (Some (user_uuid, manybirds_uuid)))
      else
        catch is_IndexError_or_AttributeError
          (bind (search_first_uuid w ''jess'') (\<lambda>user_uuid.
           bind (search_first_uuid w ''ManyBirds'') (\<lambda>manybirds_uuid.
           bind (logger_info ''Existing user and brand nodes found.'') (\<lambda>_.
           ret (Some (Some user_uuid, Some manybirds_uuid))))))
          (\<lambda>e.
           bind (logger_error could_not_find) (\<lambda>_.
           ret None)))"

text \<open>The body of the two \<open>for\<close> loops over what a graph execution streams.\<close>

definition print_update :: "node_update \<Rightarrow> unit comp" where
  "print_update v =
     (case v of
        None \<Rightarrow> ret ()
      | Some [] \<Rightarrow> raise (IndexError ''list index out of range'')
      | Some (m # ms) \<Rightarrow>
          (case last (m # ms) of
             AIMessage (StrContent s) \<Rightarrow> print_end_empty s
           | _ \<Rightarrow> ret ()))"

fun print_event :: "stream_event \<Rightarrow> unit comp" where
  "print_event [] = ret ()"
| "print_event (v # vs) = bind (print_update v) (\<lambda>_. print_event vs)"

fun consume :: "stream_event list \<Rightarrow> exn option \<Rightarrow> unit comp" where
  "consume [] None = ret ()"
| "consume [] (Some e) = raise e"
| "consume (ev # evs) r = bind (print_event ev) (\<lambda>_. consume evs r)"

definition graph_state :: "string option \<Rightarrow> string option \<Rightarrow> string \<Rightarrow> State" where
  "graph_state user_uuid manybirds_uuid user_input =
     \<lparr>messages = [\<lparr>role = ''user'', content = user_input\<rparr>],
      user_name = ''jess'',
      user_node_uuid = user_uuid,
      manybirds_node_uuid = manybirds_uuid\<rparr>"

text \<open>One turn of the loop after the sentinel test: the \<open>try\<close> statement with its handler.\<close>

definition turn :: "world \<Rightarrow> string option \<Rightarrow> string option \<Rightarrow> nat \<Rightarrow> string \<Rightarrow> unit comp" where
  "turn w user_uuid manybirds_uuid n user_input =
     bind (print_end_empty ''Assistant: '') (\<lambda>_.
     catch is_Exception
       (bind (emit (Astream n (graph_state user_uuid manybirds_uuid user_input))) (\<lambda>_.
        bind (case astream w n (graph_state user_uuid manybirds_uuid user_input) of
                (evs, r) \<Rightarrow> consume evs r) (\<lambda>_.
        print [])))
       (\<lambda>e. print (''An error occurred: '' @ exn_str e)))"

text \<open>\<open>while True\<close>: the lines still to be typed are the argument; \<open>n\<close> counts the turns.\<close>

fun chat_loop :: "world \<Rightarrow> string option \<Rightarrow> string option \<Rightarrow> nat \<Rightarrow> string list \<Rightarrow> unit comp"
  where
  "chat_loop w user_uuid manybirds_uuid n [] = bind (input ''You: '' []) (\<lambda>_. ret ())"
| "chat_loop w user_uuid manybirds_uuid n (l # ls) =
     bind (input ''You: '' (l # ls)) (\<lambda>(user_input, rest).
     if lower user_input = ''exit'' then ret ()
     else bind (turn w user_uuid manybirds_uuid n user_input) (\<lambda>_.
          chat_loop w user_uuid manybirds_uuid (Suc n) ls))"

text \<open>The second part of \<open>main\<close>: the greeting, the loop, and the close.\<close>

definition chat_session :: "world \<Rightarrow> string option \<Rightarrow> string option \<Rightarrow> string list \<Rightarrow> unit comp"
  where
  "chat_session w user_uuid manybirds_uuid lines =
     bind (print ([backslash, CHR ''n''] @ ''--- ShoeBot is ready! ---'')) (\<lambda>_.
     bind (print (''Type '' @ sq # ''exit'' @ sq # '' to end the conversation.'')) (\<lambda>_.
     bind (print ''Hello, how can I help you find shoes today?'') (\<lambda>_.
     bind (chat_loop w user_uuid manybirds_uuid 0 lines) (\<lambda>_.
     bind (await_unit Close (close w)) (\<lambda>_.
     print ([backslash, CHR ''n''] @ ''--- Conversation ended ---''))))))"

definition main :: "world \<Rightarrow> unit comp" where
  "main w =
     bind (input setup_prompt (stdin w)) (\<lambda>(run_setup, rest).
     bind (resolve_ids w run_setup) (\<lambda>ids.
     case ids of
       None \<Rightarrow> ret ()
     | Some (user_uuid, manybirds_uuid) \<Rightarrow> chat_session w user_uuid manybirds_uuid rest))"

definition advanced_script :: "(string \<rightharpoonup> string) \<Rightarrow> world \<Rightarrow> unit comp" where
  "advanced_script environ w = bind (advanced_client environ) (\<lambda>_. main w)"

section \<open>beginner/tutorial.py\<close>

subsection \<open>Configuration\<close>

text \<open>
  The module reads the same three variables with the same defaults, and then refuses an
  empty value: \<open>not s\<close> holds of the empty string only.
\<close>

definition beginner_config :: "(string \<rightharpoonup> string) \<Rightarrow> (string \<times> string \<times> string) comp" where
  "beginner_config environ =
     (if neo4j_uri environ = [] \<or> neo4j_user environ = [] \<or> neo4j_password environ = []
      then raise (ValueError ''NEO4J_URI, NEO4J_USER, and NEO4J_PASSWORD must be set'')
      else ret (neo4j_uri environ, neo4j_user environ, neo4j_password environ))"

subsection \<open>The episodes\<close>

text \<open>\<open>json.dumps(v)\<close> with its default settings: every character outside the printable
  ASCII range is escaped.\<close>

definition json_escape_char :: "char \<Rightarrow> string" where
  "json_escape_char c =
     (if c = dq then [backslash, dq]
      else if c = backslash then [backslash, backslash]
      else if c = newline then [backslash, CHR ''n'']
      else if c = CHR 0x0D then [backslash, CHR ''r'']
      else if c = CHR 0x09 then [backslash, CHR ''t'']
      else if c = CHR 0x08 then [backslash, CHR ''b'']
      else if c = CHR 0x0C then [backslash, CHR ''f'']
      else if 32 \<le> (of_char c :: nat) \<and> (of_char c :: nat) \<le> 126 then [c]
      else [backslash, CHR ''u'', CHR ''0'', CHR ''0'',
            hex_digit (of_char c div 16), hex_digit (of_char c mod 16)])"

definition json_string :: "string \<Rightarrow> string" where
  "json_string s = [dq] @ concat (map json_escape_char s) @ [dq]"

fun json_dumps :: "pyval \<Rightarrow> string" where
  "json_dumps PyNone = ''null''"
| "json_dumps (PyBool b) = (if b then ''true'' else ''false'')"
| "json_dumps (PyInt i) = str_int i"
| "json_dumps (PyFloat s) = s"
| "json_dumps (PyStr s) = json_string s"
| "json_dumps (PyList xs) = ''['' @ join '', '' (map json_dumps xs) @ '']''"
| "json_dumps (PyDict kvs) =
     ''{'' @ join '', '' (map (\<lambda>(k, v). json_string k @ '': '' @ json_dumps v) kvs) @ ''}''"

text \<open>
  The four episodes of the script: content, type, description. The second transcript
  holds three characters beyond ASCII between the two dates; they are kept as the bytes
  the source file stores for them.
\<close>

definition episodes :: "(pyval \<times> episode_type \<times> string) list" where
  "episodes =
     [(PyStr (''Kamala Harris is the Attorney General of California. She was previously ''
              @ ''the district attorney for San Francisco.''),
       EpisodeType_text, ''podcast transcript''),
      (PyStr (''As AG, Harris was in office from January 3, 2011 ''
              @ [CHR 0xC3, CHR 0xA2, CHR 0xE2, CHR 0x82, CHR 0xAC, CHR 0xE2, CHR 0x80, CHR 0x9C]
              @ '' January 3, 2017''),
       EpisodeType_text, ''podcast transcript''),
      (PyDict [(''name'', PyStr ''Gavin Newsom''),
               (''position'', PyStr ''Governor''),
               (''state'', PyStr ''California''),
               (''previous_role'', PyStr ''Lieutenant Governor''),
               (''previous_location'', PyStr ''San Francisco'')],
       EpisodeType_json, ''podcast metadata''),
      (PyDict [(''name'', PyStr ''Gavin Newsom''),
               (''position'', PyStr ''Governor''),
               (''term_start'', PyStr ''January 7, 2019''),
               (''term_end'', PyStr ''Present'')],
       EpisodeType_json, ''podcast metadata'')]"

fun episode_type_value :: "episode_type \<Rightarrow> string" where
  "episode_type_value EpisodeType_message = ''message''"
| "episode_type_value EpisodeType_json = ''json''"
| "episode_type_value EpisodeType_text = ''text''"

fun add_episodes :: "world \<Rightarrow> nat \<Rightarrow> (pyval \<times> episode_type \<times> string) list \<Rightarrow> unit comp" where
  "add_episodes w i [] = ret ()"
| "add_episodes w i ((content_v, type_v, description) # rest) =
     bind (await_unit
             (AddEpisode \<lparr>name = PyStr (''Freakonomics Radio '' @ str_nat i),
                          episode_body = (case content_v of PyStr s \<Rightarrow> s | _ \<Rightarrow> json_dumps content_v),
                          source_description = description,
                          source = type_v\<rparr>)
             (add_episode w \<lparr>name = PyStr (''Freakonomics Radio '' @ str_nat i),
                          episode_body = (case content_v of PyStr s \<Rightarrow> s | _ \<Rightarrow> json_dumps content_v),
                          source_description = description,
                          source = type_v\<rparr>)) (\<lambda>_.
     bind (print (''Added episode: Freakonomics Radio '' @ str_nat i
                  @ '' ('' @ episode_type_value type_v @ '')'')) (\<lambda>_.
     add_episodes w (Suc i) rest))"

subsection \<open>Printing search results\<close>

definition print_optional :: "string \<Rightarrow> string option \<Rightarrow> unit comp" where
  "print_optional label v = (case v of None \<Rightarrow> ret () | Some d \<Rightarrow> print (label @ d))"

fun print_edges :: "entity_edge list \<Rightarrow> unit comp" where
  "print_edges [] = ret ()"
| "print_edges (result # rest) =
     bind (print (''UUID: '' @ edge_uuid result)) (\<lambda>_.
     bind (print (''Fact: '' @ fact result)) (\<lambda>_.
     bind (print_optional ''Valid from: '' (valid_at result)) (\<lambda>_.
     bind (print_optional ''Valid until: '' (invalid_at result)) (\<lambda>_.
     bind (print ''---'') (\<lambda>_.
     print_edges rest)))))"

fun print_node_attributes :: "(string \<times> string) list \<Rightarrow> unit comp" where
  "print_node_attributes [] = ret ()"
| "print_node_attributes ((key, val) # rest) =
     bind (print (''  '' @ key @ '': '' @ val)) (\<lambda>_. print_node_attributes rest)"

fun print_nodes :: "entity_node list \<Rightarrow> unit comp" where
  "print_nodes [] = ret ()"
| "print_nodes (node # rest) =
     bind (print (''Node UUID: '' @ node_uuid node)) (\<lambda>_.
     bind (print (''Node Name: '' @ node_name node)) (\<lambda>_.
     bind (print (''Content Summary: ''
                  @ (if length (summary node) > 100 then take 100 (summary node) @ ''...''
                     else summary node))) (\<lambda>_.
     bind (print (''Node Labels: '' @ join '', '' (labels node))) (\<lambda>_.
     bind (print (''Created At: '' @ created_at node)) (\<lambda>_.
     bind (if attributes node \<noteq> []
           then bind (print ''Attributes:'') (\<lambda>_. print_node_attributes (attributes node))
           else ret ()) (\<lambda>_.
     bind (print ''---'') (\<lambda>_.
     print_nodes rest)))))))"

subsection \<open>main\<close>

definition attorney_query :: string where
  "attorney_query = ''Who was the California Attorney General?''"

text \<open>The body of the \<open>try\<close> statement.\<close>

definition beginner_body :: "world \<Rightarrow> unit comp" where
  "beginner_body w =
     bind (add_episodes w 0 episodes) (\<lambda>_.
     bind (print (newline # ''Searching for: '' @ sq # attorney_query @ [sq])) (\<lambda>_.
     bind (await_value (EdgeSearch attorney_query None None)
             (edge_search w attorney_query None None)) (\<lambda>results.
     bind (print (newline # ''Search Results:'')) (\<lambda>_.
     bind (print_edges results) (\<lambda>_.
     bind (case results of
             [] \<Rightarrow> print ''No results found in the initial search to use as center node.''
           | first # others \<Rightarrow>
               bind (print (newline # ''Reranking search results based on graph distance:'')) (\<lambda>_.
               bind (print (''Using center node UUID: '' @ source_node_uuid first)) (\<lambda>_.
               bind (await_value
                       (EdgeSearch attorney_query (Some (source_node_uuid first)) None)
                       (edge_search w attorney_query (Some (source_node_uuid first)) None))
                 (\<lambda>reranked_results.
               bind (print (newline # ''Reranked Search Results:'')) (\<lambda>_.
               print_edges reranked_results))))) (\<lambda>_.
     bind (print (newline # ''Performing node search using _search method with standard ''
                  @ ''recipe NODE_HYBRID_SEARCH_RRF:'')) (\<lambda>_.
     bind (await_value (NodeSearch ''California Governor'' (NODE_HYBRID_SEARCH_RRF_limit 5))
             (node_search w ''California Governor'' (NODE_HYBRID_SEARCH_RRF_limit 5)))
       (\<lambda>node_search_results.
     bind (print (newline # ''Node Search Results:'')) (\<lambda>_.
     case node_search_results of
       None \<Rightarrow> raise (AttributeError (sq # ''NoneType'' @ sq # '' object has no attribute ''
                        @ sq # ''nodes'' @ [sq]))
     | Some nodes \<Rightarrow> print_nodes nodes)))))))))"

definition beginner_main :: "string \<Rightarrow> string \<Rightarrow> string \<Rightarrow> world \<Rightarrow> unit comp" where
  "beginner_main uri user password w =
     bind (emit (Graphiti uri user password)) (\<lambda>_.
     finally_do (beginner_body w)
       (bind (await_unit Close (close w)) (\<lambda>_.
        print (newline # ''Connection closed''))))"

definition beginner_script :: "(string \<rightharpoonup> string) \<Rightarrow> world \<Rightarrow> unit comp" where
  "beginner_script environ w =
     bind (beginner_config environ) (\<lambda>(uri, user, password).
     beginner_main uri user password w)"

section \<open>Sample inputs\<close>

text \<open>
  An edge with a given fact, a node with a given identifier, and a world with an empty
  graph database: nothing typed, no product file, every call succeeds, every search
  finds nothing and every graph execution streams nothing.
\<close>

definition mk_edge :: "string \<Rightarrow> entity_edge" where
  "mk_edge f = \<lparr>edge_uuid = ''e1'', fact = f, valid_at = None, invalid_at = None,
     source_node_uuid = ''n1''\<rparr>"

definition mk_node :: "string \<Rightarrow> entity_node" where
  "mk_node u = \<lparr>node_uuid = u, node_name = ''node'', summary = [], labels = [''Entity''],
     created_at = ''2025-01-01'', attributes = []\<rparr>"

definition empty_world :: world where
  "empty_world =
     \<lparr>stdin = [],
      clear_data = None,
      build_indices_and_constraints = None,
      json_file_path = ''examples/data/manybirds_products.json'',
      json_file_exists = False,
      json_products = Inr (PyList []),
      add_episode = (\<lambda>ep. None),
      node_search = (\<lambda>query config. Inr (Some [])),
      edge_search = (\<lambda>query center num_results. Inr []),
      astream = (\<lambda>n state. ([], None)),
      close = None\<rparr>"

text \<open>A catalogue of one product with pictures, in a graph that finds a node for
  every name.\<close>

definition wool_runner :: "(string \<times> pyval) list" where
  "wool_runner =
     [(''title'', PyStr ''Wool Runner''),
      (''images'', PyList [PyStr ''a.png'', PyStr ''b.png'']),
      (''price'', PyInt 95)]"

definition shop_world :: world where
  "shop_world =
     empty_world\<lparr>json_file_exists := True,
                  json_products := Inr (PyList [PyDict wool_runner]),
                  node_search := (\<lambda>query config. Inr (Some [mk_node query]))\<rparr>"

text \<open>The same shop when every graph execution streams the start of an answer and then
  fails, and when no search finds a node.\<close>

definition failing_stream_world :: world where
  "failing_stream_world =
     shop_world\<lparr>astream := (\<lambda>n state. ([[Some [AIMessage (StrContent ''Hel'')]]],
                                          Some (OtherException ''boom'')))\<rparr>"

definition no_user_node_world :: world where
  "no_user_node_world =
     shop_world\<lparr>stdin := [''yes''], node_search := (\<lambda>query config. Inr (Some []))\<rparr>"



section \<open>Traces and results of computations\<close>

lemma fst_bind: "fst (bind m f) = fst m @ (case snd m of Inl e \<Rightarrow> [] | Inr x \<Rightarrow> fst (f x))"
  by (cases m; cases "snd m") (auto split: prod.splits)


lemma bind_Inr:
  "bind m f = (t, Inr y) \<Longrightarrow> \<exists>t1 x t2. m = (t1, Inr x) \<and> f x = (t2, Inr y) \<and> t = t1 @ t2"
  by (cases m; cases "snd m") (auto split: prod.splits)

lemma bind_ret [simp]: "bind (ret x) f = f x"
  by (cases "f x") (simp add: ret_def)

lemma bind_raise [simp]: "bind (raise e) f = raise e"
  by (simp add: raise_def)

lemma bind_emit [simp]: "bind (emit ev) f = (ev # fst (f ()), snd (f ()))"
  by (cases "f ()") (simp add: emit_def)

lemma fst_catch:
  "fst (catch p m h)
     = fst m @ (case snd m of Inl e \<Rightarrow> if p e then fst (h e) else [] | Inr x \<Rightarrow> [])"
  by (cases m; cases "snd m") (auto split: prod.splits)


lemma catch_Inr:
  "catch p m h = (t, Inr y) \<Longrightarrow>
     m = (t, Inr y) \<or> (\<exists>t1 e t2. m = (t1, Inl e) \<and> p e \<and> h e = (t2, Inr y) \<and> t = t1 @ t2)"
  by (cases m; cases "snd m") (auto split: prod.splits if_splits)

lemma fst_finally_do: "fst (finally_do m c) = fst m @ fst c"
  by (cases m; cases c; cases "snd c") auto

lemma fst_simple [simp]:
  "fst (ret x) = []"
  "fst (raise e) = []"
  "fst (emit ev) = [ev]"
  "fst (print s) = [Print (s @ [newline])]"
  "fst (print_end_empty s) = [Print s]"
  "fst (logger_info s) = [Log INFO s]"
  "fst (logger_warning s) = [Log WARNING s]"
  "fst (logger_error s) = [Log ERROR s]"
  "fst (await_unit ev r) = [ev]"
  "fst (await_value ev v) = [ev]"
  "fst (input p ls) = [Input p]"
  by (simp_all add: ret_def raise_def emit_def print_def print_end_empty_def
      logger_info_def logger_warning_def logger_error_def await_unit_def await_value_def
      input_def split: option.splits list.splits)

lemma snd_simple [simp]:
  "snd (ret x) = Inr x"
  "snd (raise e) = Inl e"
  "snd (emit ev) = Inr ()"
  "snd (print s) = Inr ()"
  "snd (print_end_empty s) = Inr ()"
  "snd (logger_info s) = Inr ()"
  "snd (logger_warning s) = Inr ()"
  "snd (logger_error s) = Inr ()"
  by (simp_all add: ret_def raise_def emit_def print_def print_end_empty_def
      logger_info_def logger_warning_def logger_error_def)

lemma snd_await [simp]:
  "snd (await_unit ev r) = (case r of None \<Rightarrow> Inr () | Some e \<Rightarrow> Inl e)"
  "snd (await_value ev v) = v"
  "snd (input p []) = Inl (EOFError ''EOF when reading a line'')"
  "snd (input p (l # ls)) = Inr (l, ls)"
  by (simp_all add: await_unit_def await_value_def input_def split: option.splits)


text \<open>Where an event of a composed computation comes from.\<close>

lemma in_bind:
  "ev \<in> set (fst (bind m f)) \<Longrightarrow> ev \<in> set (fst m) \<or> (\<exists>x. ev \<in> set (fst (f x)))"
  by (auto simp: fst_bind split: sum.splits)

lemma in_bind_strong:
  "ev \<in> set (fst (bind m f)) \<Longrightarrow> ev \<in> set (fst m) \<or> (\<exists>x. snd m = Inr x \<and> ev \<in> set (fst (f x)))"
  by (auto simp: fst_bind split: sum.splits)

lemma in_catch:
  "ev \<in> set (fst (catch p m h)) \<Longrightarrow> ev \<in> set (fst m) \<or> (\<exists>e. ev \<in> set (fst (h e)))"
proof (cases m)
  case (Pair t r)
  assume a: "ev \<in> set (fst (catch p m h))"
  show ?thesis
  proof (cases r)
    case (Inl e)
    show ?thesis
    proof (cases "p e")
      case True
      with a Pair Inl have "ev \<in> set t \<or> ev \<in> set (fst (h e))"
        by (cases "h e") auto
      with Pair show ?thesis by auto
    next
      case False
      with a Pair Inl show ?thesis by simp
    qed
  next
    case (Inr x)
    with a Pair show ?thesis by simp
  qed
qed

lemma in_print [simp]: "ev \<in> set (fst (print s)) \<longleftrightarrow> ev = Print (s @ [newline])"
  by (simp add: print_def emit_def)

lemma in_print_end_empty [simp]: "ev \<in> set (fst (print_end_empty s)) \<longleftrightarrow> ev = Print s"
  by (simp add: print_end_empty_def emit_def)

lemma in_ret [simp]: "ev \<notin> set (fst (ret x))"
  by (simp add: ret_def)

lemma in_raise [simp]: "ev \<notin> set (fst (raise e))"
  by (simp add: raise_def)

lemma in_emit [simp]: "ev \<in> set (fst (emit e)) \<longleftrightarrow> ev = e"
  by (simp add: emit_def)

lemma in_await_unit [simp]: "ev \<in> set (fst (await_unit e r)) \<longleftrightarrow> ev = e"
  by (simp add: await_unit_def split: option.splits)

lemma in_await_value [simp]: "ev \<in> set (fst (await_value e r)) \<longleftrightarrow> ev = e"
  by (simp add: await_value_def)

lemma in_input [simp]: "ev \<in> set (fst (input p ls)) \<longleftrightarrow> ev = Input p"
  by (simp add: input_def split: list.splits)

lemma in_logger [simp]:
  "ev \<in> set (fst (logger_info s)) \<longleftrightarrow> ev = Log INFO s"
  "ev \<in> set (fst (logger_warning s)) \<longleftrightarrow> ev = Log WARNING s"
  "ev \<in> set (fst (logger_error s)) \<longleftrightarrow> ev = Log ERROR s"
  by (simp_all add: logger_info_def logger_warning_def logger_error_def)


section \<open>The events of each part of the scripts\<close>

subsection \<open>The beginner script\<close>

lemma print_optional_events: "ev \<in> set (fst (print_optional l v)) \<Longrightarrow> \<exists>s. ev = Print s"
  by (simp add: print_optional_def split: option.splits)

lemma add_episodes_events:
  "ev \<in> set (fst (add_episodes w i eps)) \<Longrightarrow> (\<exists>s. ev = Print s) \<or> (\<exists>ep. ev = AddEpisode ep)"
  by (induction w i eps rule: add_episodes.induct) (auto dest!: in_bind)

lemma print_edges_events: "ev \<in> set (fst (print_edges es)) \<Longrightarrow> \<exists>s. ev = Print s"
  by (induction es) (auto dest!: in_bind print_optional_events)

lemma print_node_attributes_events:
  "ev \<in> set (fst (print_node_attributes kvs)) \<Longrightarrow> \<exists>s. ev = Print s"
  by (induction kvs rule: print_node_attributes.induct) (auto dest!: in_bind)

lemma print_nodes_events: "ev \<in> set (fst (print_nodes ns)) \<Longrightarrow> \<exists>s. ev = Print s"
  by (induction ns) (auto dest!: in_bind print_node_attributes_events split: if_splits)

lemma no_close_beginner_body: "Close \<notin> set (fst (beginner_body w))"
  unfolding beginner_body_def
  by (auto dest!: in_bind add_episodes_events print_edges_events print_nodes_events
           split: list.splits option.splits)


text \<open>
  Whatever the outside answers, a run of the beginner's \<open>main\<close> calls \<open>close\<close> exactly
  once: the call stands in the \<open>finally\<close> clause.
\<close>

lemma beginner_main_closes_once:
  "count_list (fst (beginner_main uri user password w)) Close = 1"
proof -
  have body: "count_list (fst (beginner_body w)) Close = 0"
    using no_close_beginner_body by (simp add: count_list_0_iff)
  have fin: "fst (bind (await_unit Close (close w)) (\<lambda>_. print (newline # ''Connection closed'')))
        = (case close w of None \<Rightarrow> [Close, Print (newline # ''Connection closed'' @ [newline])]
           | Some e \<Rightarrow> [Close])"
    by (simp add: await_unit_def print_def emit_def split: option.splits)
  show ?thesis
    by (simp add: beginner_main_def fst_finally_do body fin split: option.splits)
qed


subsection \<open>The chat loop\<close>

lemma print_update_events: "ev \<in> set (fst (print_update v)) \<Longrightarrow> \<exists>s. ev = Print s"
  by (auto simp: print_update_def split: option.splits list.splits message.splits msg_content.splits)

lemma print_event_events: "ev \<in> set (fst (print_event vs)) \<Longrightarrow> \<exists>s. ev = Print s"
  by (induction vs) (auto dest!: in_bind print_update_events)

lemma consume_events: "ev \<in> set (fst (consume evs r)) \<Longrightarrow> \<exists>s. ev = Print s"
  by (induction evs r rule: consume.induct) (auto dest!: in_bind print_event_events)

lemma turn_events:
  "ev \<in> set (fst (turn w u m n l)) \<Longrightarrow> (\<exists>s. ev = Print s) \<or> ev = Astream n (graph_state u m l)"
  unfolding turn_def
  by (auto dest!: in_bind in_catch consume_events split: prod.splits)

lemma chat_loop_events:
  "ev \<in> set (fst (chat_loop w u m n ls)) \<Longrightarrow>
     (\<exists>s. ev = Print s) \<or> (\<exists>p. ev = Input p) \<or> (\<exists>k l. ev = Astream k (graph_state u m l))"
  by (induction w u m n ls rule: chat_loop.induct)
     (fastforce dest!: in_bind turn_events split: if_splits prod.splits)+

lemma chat_session_events:
  "ev \<in> set (fst (chat_session w u m ls)) \<Longrightarrow>
     (\<exists>s. ev = Print s) \<or> (\<exists>p. ev = Input p) \<or> ev = Close
     \<or> (\<exists>k l. ev = Astream k (graph_state u m l))"
  unfolding chat_session_def
  by (auto dest!: in_bind chat_loop_events)

lemma chat_loop_exit:
  "lower l = ''exit'' \<Longrightarrow> chat_loop w u m n (l # ls) = ([Input ''You: ''], Inr ())"
  by (simp add: input_def ret_def)

lemma chat_loop_turn:
  "lower l \<noteq> ''exit'' \<Longrightarrow>
   take 3 (fst (chat_loop w u m n (l # ls)))
     = [Input ''You: '', Print ''Assistant: '', Astream n (graph_state u m l)]"
  by (simp add: turn_def fst_bind fst_catch)


subsection \<open>The setup and the lookup of existing nodes\<close>

lemma first_node_uuid_events [simp]: "ev \<notin> set (fst (first_node_uuid r))"
  by (simp add: first_node_uuid_def split: option.splits list.splits)

lemma search_first_uuid_events:
  "ev \<in> set (fst (search_first_uuid w q)) \<Longrightarrow> ev = NodeSearch q NODE_HYBRID_SEARCH_EPISODE_MENTIONS"
  unfolding search_first_uuid_def by (auto dest!: in_bind)

lemma iterate_events [simp]: "ev \<notin> set (fst (iterate v))"
  by (simp add: iterate_def split: pyval.splits)

lemma product_episode_events [simp]: "ev \<notin> set (fst (product_episode i p))"
  by (simp add: product_episode_def split: pyval.splits)




lemma setup_database_calls_clear_data: "ClearData \<in> set (fst (setup_database w))"
  by (simp add: setup_database_def logger_info_def logger_warning_def await_unit_def
      split: option.splits)

lemma setup_database_no_file_events:
  "\<not> json_file_exists w \<Longrightarrow> AddEpisode ep \<notin> set (fst (setup_database w))"
  unfolding setup_database_def
  by (auto dest!: in_bind)

lemma setup_database_no_file:
  assumes "\<not> json_file_exists w" "clear_data w = None" "build_indices_and_constraints w = None"
  shows "setup_database w
    = ([Log INFO ''Setting up the database. This may take a moment...'',
        Log WARNING ''This will clear all existing data in the graph!'',
        ClearData,
        BuildIndices,
        Log INFO ''Database cleared and schema built.'',
        PathExists (json_file_path w),
        Log ERROR (''Product data not found at '' @ json_file_path w)],
       Inr (None, None))"
  using assms
  by (simp add: setup_database_def logger_info_def logger_warning_def logger_error_def
      await_unit_def emit_def ret_def)

lemma lookup_events:
  "ev \<in> set (fst (catch is_IndexError_or_AttributeError
          (bind (search_first_uuid w ''jess'') (\<lambda>user_uuid.
           bind (search_first_uuid w ''ManyBirds'') (\<lambda>manybirds_uuid.
           bind (logger_info ''Existing user and brand nodes found.'') (\<lambda>_.
           ret (Some (Some user_uuid, Some manybirds_uuid))))))
          (\<lambda>e. bind (logger_error msg) (\<lambda>_. ret None)))) \<Longrightarrow>
    (\<exists>l s. ev = Log l s) \<or> (\<exists>q c. ev = NodeSearch q c)"
  by (auto dest!: in_catch in_bind search_first_uuid_events)

lemma lookup_failure:
  assumes "bind (search_first_uuid w ''jess'') (\<lambda>user_uuid. search_first_uuid w ''ManyBirds'')
             = (t, Inl e)"
    and "is_IndexError_or_AttributeError e"
    and "lower a \<noteq> ''yes''"
  shows "resolve_ids w a = (t @ [Log ERROR could_not_find], Inr None)"
proof (cases "search_first_uuid w ''jess''")
  case (Pair t1 r1)
  show ?thesis
  proof (cases r1)
    case (Inl e1)
    with Pair assms show ?thesis
      by (simp add: resolve_ids_def could_not_find_def logger_error_def emit_def ret_def)
  next
    case (Inr u1)
    show ?thesis
    proof (cases "search_first_uuid w ''ManyBirds''")
      case (Pair t2 r2)
      with \<open>search_first_uuid w ''jess'' = (t1, r1)\<close> Inr assms show ?thesis
        by (cases r2)
           (auto simp: resolve_ids_def could_not_find_def logger_error_def emit_def ret_def)
    qed
  qed
qed

lemma resolve_ids_events:
  "ev \<in> set (fst (resolve_ids w a)) \<Longrightarrow>
     (lower a = ''yes'' \<and> ev \<in> set (fst (setup_database w)))
     \<or> (lower a \<noteq> ''yes'' \<and> ((\<exists>l s. ev = Log l s) \<or> (\<exists>q c. ev = NodeSearch q c)))"
  unfolding resolve_ids_def
  by (auto dest!: in_bind lookup_events split: if_splits prod.splits)


lemma main_events:
  assumes "ev \<in> set (fst (main w))"
  shows "ev = Input setup_prompt
     \<or> (\<exists>a rest. stdin w = a # rest \<and> ev \<in> set (fst (resolve_ids w a)))
     \<or> (\<exists>a rest u m. stdin w = a # rest \<and> snd (resolve_ids w a) = Inr (Some (u, m))
           \<and> ev \<in> set (fst (chat_session w u m rest)))"
proof (cases "stdin w")
  case Nil
  with assms show ?thesis by (simp add: main_def input_def)
next
  case (Cons a rest)
  with assms have "ev = Input setup_prompt \<or> ev \<in> set (fst (bind (resolve_ids w a) (\<lambda>ids.
     case ids of None \<Rightarrow> ret () | Some (u, m) \<Rightarrow> chat_session w u m rest)))"
    by (cases "bind (resolve_ids w a) (\<lambda>ids.
     case ids of None \<Rightarrow> ret () | Some (u, m) \<Rightarrow> chat_session w u m rest)")
       (auto simp: main_def input_def)
  then show ?thesis
    using Cons by (auto dest!: in_bind_strong split: option.splits)
qed

lemma main_clear_data:
  assumes "stdin w = a # rest"
  shows "ClearData \<in> set (fst (main w)) \<longleftrightarrow> lower a = ''yes''"
proof
  assume "ClearData \<in> set (fst (main w))"
  from main_events [OF this] assms show "lower a = ''yes''"
    by (auto dest!: resolve_ids_events chat_session_events)
next
  assume y: "lower a = ''yes''"
  have "ClearData \<in> set (fst (resolve_ids w a))"
    using y setup_database_calls_clear_data [of w] by (simp add: resolve_ids_def fst_bind)
  then show "ClearData \<in> set (fst (main w))"
    using assms by (simp add: main_def fst_bind)
qed


subsection \<open>The product episodes\<close>








section \<open>The claims\<close>

text \<open>
  C1. On the two edges with facts \<open>a\<close> and \<open>b\<close> the formatter returns the single line
  that reads \<open>- a\<close>, backslash, \<open>n- b\<close>: a backslash and the letter \<open>n\<close> stand between the
  facts. It does not return the two lines \<open>- a\<close> and \<open>- b\<close> separated by a line feed, no
  line feed occurs in the result at all, and the tool \<open>get_shoe_data\<close> hands the same
  string to the agent.
\<close>

theorem edges_to_facts_string_two_facts:
  "edges_to_facts_string [mk_edge ''a'', mk_edge ''b'']
     = ''- a'' @ [backslash, CHR ''n''] @ ''- b''
   \<and> edges_to_facts_string [mk_edge ''a'', mk_edge ''b'']
     \<noteq> ''- a'' @ [newline] @ ''- b''
   \<and> newline \<notin> set (edges_to_facts_string [mk_edge ''a'', mk_edge ''b''])
   \<and> snd (get_shoe_data
        (empty_world\<lparr>edge_search :=
           (\<lambda>query center num_results. Inr [mk_edge ''a'', mk_edge ''b''])\<rparr>)
        ''shoes'' (graph_state (Some ''u'') (Some ''m'') ''hi''))
     = Inr (''- a'' @ [backslash, CHR ''n''] @ ''- b'')"
  by (simp add: edges_to_facts_string_def facts_separator_def mk_edge_def
      backslash_def newline_def get_shoe_data_def logger_info_def await_value_def
      ret_def emit_def empty_world_def)


text \<open>
  C2. The advanced \<open>main\<close>, run on an empty graph database with the answer \<open>no\<close> to the
  setup prompt: the lookup of the user node finds nothing, \<open>main\<close> logs the error and
  returns, and \<open>close\<close> has not been called.
\<close>

theorem main_no_setup_empty_graph_not_closed:
  "main (empty_world\<lparr>stdin := [''no'']\<rparr>)
     = ([Input setup_prompt,
         NodeSearch ''jess'' NODE_HYBRID_SEARCH_EPISODE_MENTIONS,
         Log ERROR could_not_find],
        Inr ())
   \<and> count_list (fst (main (empty_world\<lparr>stdin := [''no'']\<rparr>))) Close = 0"
  by code_simp


text \<open>
  C3, as amended. When the answer to the setup prompt is \<open>yes\<close> and the product file does
  not exist, no episode is ingested, and once the data is cleared and the schema built
  \<open>setup_database\<close> logs the error and returns \<open>(None, None)\<close>, upon which \<open>main\<close>
  returns before the chat loop. When the answer is not \<open>yes\<close> and the lookup of the user
  node or of the brand node raises \<open>IndexError\<close> or \<open>AttributeError\<close>, \<open>main\<close> logs the
  error and returns before the chat loop.
\<close>

theorem missing_data_or_failed_lookup_returns_early:
  "(stdin w = a # rest \<and> lower a = ''yes'' \<and> \<not> json_file_exists w \<longrightarrow>
      (\<forall>ep. AddEpisode ep \<notin> set (fst (main w)))
      \<and> (clear_data w = None \<and> build_indices_and_constraints w = None \<longrightarrow>
           setup_database w
             = ([Log INFO ''Setting up the database. This may take a moment...'',
                 Log WARNING ''This will clear all existing data in the graph!'',
                 ClearData,
                 BuildIndices,
                 Log INFO ''Database cleared and schema built.'',
                 PathExists (json_file_path w),
                 Log ERROR (''Product data not found at '' @ json_file_path w)],
                Inr (None, None))
           \<and> main w = (Input setup_prompt # fst (setup_database w), Inr ())))
   \<and> (stdin w = a # rest \<and> lower a \<noteq> ''yes''
        \<and> bind (search_first_uuid w ''jess'') (\<lambda>user_uuid. search_first_uuid w ''ManyBirds'')
            = (t, Inl e)
        \<and> is_IndexError_or_AttributeError e \<longrightarrow>
      main w = (Input setup_prompt # t @ [Log ERROR could_not_find], Inr ()))"
proof (intro conjI impI allI)
  fix ep
  assume h: "stdin w = a # rest \<and> lower a = ''yes'' \<and> \<not> json_file_exists w"
  show "AddEpisode ep \<notin> set (fst (main w))"
  proof
    assume "AddEpisode ep \<in> set (fst (main w))"
    from main_events [OF this] h show False
      by (auto dest!: resolve_ids_events chat_session_events
               simp: setup_database_no_file_events)
  qed
next
  assume h: "stdin w = a # rest \<and> lower a = ''yes'' \<and> \<not> json_file_exists w"
    and c: "clear_data w = None \<and> build_indices_and_constraints w = None"
  from h c show s: "setup_database w
             = ([Log INFO ''Setting up the database. This may take a moment...'',
                 Log WARNING ''This will clear all existing data in the graph!'',
                 ClearData,
                 BuildIndices,
                 Log INFO ''Database cleared and schema built.'',
                 PathExists (json_file_path w),
                 Log ERROR (''Product data not found at '' @ json_file_path w)],
                Inr (None, None))"
    by (simp add: setup_database_no_file)
  from h show "main w = (Input setup_prompt # fst (setup_database w), Inr ())"
    unfolding s by (simp add: main_def input_def resolve_ids_def s ret_def)
next
  assume h: "stdin w = a # rest \<and> lower a \<noteq> ''yes''
        \<and> bind (search_first_uuid w ''jess'') (\<lambda>user_uuid. search_first_uuid w ''ManyBirds'')
            = (t, Inl e)
        \<and> is_IndexError_or_AttributeError e"
  then have "resolve_ids w a = (t @ [Log ERROR could_not_find], Inr None)"
    by (simp add: lookup_failure)
  with h show "main w = (Input setup_prompt # t @ [Log ERROR could_not_find], Inr ())"
    by (simp add: main_def input_def ret_def)
qed


text \<open>The amended C3 on an empty graph database, with the answer \<open>yes\<close> and with the
  answer \<open>no\<close>.\<close>

theorem missing_data_or_failed_lookup_returns_early_witness:
  "stdin (empty_world\<lparr>stdin := [''yes'']\<rparr>) = [''yes'']
   \<and> lower ''yes'' = ''yes''
   \<and> \<not> json_file_exists (empty_world\<lparr>stdin := [''yes'']\<rparr>)
   \<and> main (empty_world\<lparr>stdin := [''yes'']\<rparr>)
      = ([Input setup_prompt,
          Log INFO ''Setting up the database. This may take a moment...'',
          Log WARNING ''This will clear all existing data in the graph!'',
          ClearData,
          BuildIndices,
          Log INFO ''Database cleared and schema built.'',
          PathExists ''examples/data/manybirds_products.json'',
          Log ERROR ''Product data not found at examples/data/manybirds_products.json''],
         Inr ())
   \<and> stdin (empty_world\<lparr>stdin := [''no'']\<rparr>) = [''no'']
   \<and> lower ''no'' \<noteq> ''yes''
   \<and> is_IndexError_or_AttributeError (IndexError ''list index out of range'')
   \<and> main (empty_world\<lparr>stdin := [''no'']\<rparr>)
      = ([Input setup_prompt,
          NodeSearch ''jess'' NODE_HYBRID_SEARCH_EPISODE_MENTIONS,
          Log ERROR could_not_find],
         Inr ())"
proof -
  have y: "lower ''yes'' = ''yes''" by code_simp
  have n: "lower ''no'' \<noteq> ''yes''" by code_simp
  have f: "\<not> json_file_exists (empty_world\<lparr>stdin := [''yes'']\<rparr>)"
    "clear_data (empty_world\<lparr>stdin := [''yes'']\<rparr>) = None"
    "build_indices_and_constraints (empty_world\<lparr>stdin := [''yes'']\<rparr>) = None"
    "json_file_path (empty_world\<lparr>stdin := [''yes'']\<rparr>) = ''examples/data/manybirds_products.json''"
    by (simp_all add: empty_world_def)
  have s: "bind (search_first_uuid (empty_world\<lparr>stdin := [''no'']\<rparr>) ''jess'')
             (\<lambda>user_uuid. search_first_uuid (empty_world\<lparr>stdin := [''no'']\<rparr>) ''ManyBirds'')
           = ([NodeSearch ''jess'' NODE_HYBRID_SEARCH_EPISODE_MENTIONS],
              Inl (IndexError ''list index out of range''))"
    by code_simp
  from missing_data_or_failed_lookup_returns_early
         [where w = "empty_world\<lparr>stdin := [''yes'']\<rparr>" and a = "''yes''" and rest = "[]"]
       missing_data_or_failed_lookup_returns_early
         [where w = "empty_world\<lparr>stdin := [''no'']\<rparr>" and a = "''no''" and rest = "[]"
            and t = "[NodeSearch ''jess'' NODE_HYBRID_SEARCH_EPISODE_MENTIONS]"
            and e = "IndexError ''list index out of range''"]
       y n f s
  show ?thesis by simp
qed


text \<open>
  C3 as it was stated fails for the lookups inside \<open>setup_database\<close>: with the answer
  \<open>yes\<close>, the product file in place and a search that finds no node for the user,
  \<open>main\<close> ends with the \<open>IndexError\<close> raised; no error is logged and \<open>main\<close> does not
  return.
\<close>

theorem setup_lookup_failure_propagates:
  "main no_user_node_world
     = ([Input setup_prompt,
         Log INFO ''Setting up the database. This may take a moment...'',
         Log WARNING ''This will clear all existing data in the graph!'',
         ClearData,
         BuildIndices,
         Log INFO ''Database cleared and schema built.'',
         PathExists ''examples/data/manybirds_products.json'',
         LoadProducts ''examples/data/manybirds_products.json'',
         AddEpisode \<lparr>name = PyStr ''Wool Runner'',
                     episode_body = str (PyDict [(''title'', PyStr ''Wool Runner''),
                                                 (''price'', PyInt 95)]),
                     source_description = ''ManyBirds products'',
                     source = EpisodeType_json\<rparr>,
         Log INFO ''1 products ingested.'',
         AddEpisode user_creation_episode,
         NodeSearch ''jess'' NODE_HYBRID_SEARCH_EPISODE_MENTIONS],
        Inl (IndexError ''list index out of range''))"
  by code_simp


text \<open>
  C4. In a turn of the chat loop (an input that is not the sentinel), when the graph
  execution raises an exception of the class \<open>Exception\<close>, after streaming whatever it
  streamed, the loop prints \<open>An error occurred:\<close> followed by the text of the exception
  and goes on with the next turn, which starts by prompting again; the exception does
  not leave the loop.
\<close>

theorem chat_loop_catches_exception:
  assumes "lower l \<noteq> ''exit''"
    and "(case astream w n (graph_state u m l) of (evs, r) \<Rightarrow> consume evs r) = (t, Inl e)"
    and "is_Exception e"
  shows "chat_loop w u m n (l # ls)
     = ([Input ''You: '', Print ''Assistant: '', Astream n (graph_state u m l)] @ t
          @ [Print (''An error occurred: '' @ exn_str e @ [newline])]
          @ fst (chat_loop w u m (Suc n) ls),
        snd (chat_loop w u m (Suc n) ls))
   \<and> hd (fst (chat_loop w u m (Suc n) ls)) = Input ''You: ''"
proof -
  have t: "turn w u m n l
     = ([Print ''Assistant: '', Astream n (graph_state u m l)] @ t
          @ [Print (''An error occurred: '' @ exn_str e @ [newline])], Inr ())"
    using assms(2,3)
    by (simp add: turn_def print_end_empty_def print_def emit_def)
  have h: "hd (fst (chat_loop w u m (Suc n) ls)) = Input ''You: ''"
    by (cases ls) (simp_all add: fst_bind)
  show ?thesis
    using assms(1) t h
    by (cases "chat_loop w u m (Suc n) ls") (simp add: input_def)
qed


text \<open>C4 on a graph execution that streams \<open>Hel\<close> and then fails with \<open>boom\<close>.\<close>

theorem chat_loop_catches_exception_witness:
  "lower ''hi'' \<noteq> ''exit''
   \<and> is_Exception (OtherException ''boom'')
   \<and> chat_loop failing_stream_world (Some ''u'') (Some ''m'') 0 [''hi'', ''exit'']
     = ([Input ''You: '', Print ''Assistant: '',
         Astream 0 (graph_state (Some ''u'') (Some ''m'') ''hi''),
         Print ''Hel'',
         Print (''An error occurred: boom'' @ [newline]),
         Input ''You: ''],
        Inr ())"
proof -
  have l: "lower ''hi'' \<noteq> ''exit''" by code_simp
  have s: "(case astream failing_stream_world 0 (graph_state (Some ''u'') (Some ''m'') ''hi'')
            of (evs, r) \<Rightarrow> consume evs r) = ([Print ''Hel''], Inl (OtherException ''boom''))"
    by code_simp
  have x: "lower ''exit'' = ''exit''" by code_simp
  have r: "chat_loop failing_stream_world (Some ''u'') (Some ''m'') (Suc 0) [''exit'']
           = ([Input ''You: ''], Inr ())"
    using x by (rule chat_loop_exit)
  show ?thesis
    using chat_loop_catches_exception [OF l s, of "[''exit'']"] l r by simp
qed


text \<open>
  C6. The three module variables are the values of \<open>NEO4J_URI\<close>, \<open>NEO4J_USER\<close> and
  \<open>NEO4J_PASSWORD\<close> where these are set and \<open>bolt://localhost:7687\<close>, \<open>neo4j\<close> and
  \<open>password\<close> where they are not. The advanced script constructs its client from them.
  The beginner script either raises its \<open>ValueError\<close> before doing anything, which needs
  one of the three to be empty, or constructs its client from them; with all three
  variables unset it does not raise.
\<close>

theorem client_arguments_from_environment:
  "(\<forall>v. environ ''NEO4J_URI'' = Some v \<longrightarrow> neo4j_uri environ = v)
   \<and> (\<forall>v. environ ''NEO4J_USER'' = Some v \<longrightarrow> neo4j_user environ = v)
   \<and> (\<forall>v. environ ''NEO4J_PASSWORD'' = Some v \<longrightarrow> neo4j_password environ = v)
   \<and> (environ ''NEO4J_URI'' = None \<longrightarrow> neo4j_uri environ = ''bolt://localhost:7687'')
   \<and> (environ ''NEO4J_USER'' = None \<longrightarrow> neo4j_user environ = ''neo4j'')
   \<and> (environ ''NEO4J_PASSWORD'' = None \<longrightarrow> neo4j_password environ = ''password'')
   \<and> advanced_script environ w
        = (Graphiti (neo4j_uri environ) (neo4j_user environ) (neo4j_password environ)
             # fst (main w), snd (main w))
   \<and> (beginner_script environ w
         = ([], Inl (ValueError ''NEO4J_URI, NEO4J_USER, and NEO4J_PASSWORD must be set''))
        \<and> (neo4j_uri environ = [] \<or> neo4j_user environ = [] \<or> neo4j_password environ = [])
       \<or> beginner_script environ w
         = (Graphiti (neo4j_uri environ) (neo4j_user environ) (neo4j_password environ)
              # fst (finally_do (beginner_body w)
                       (bind (await_unit Close (close w)) (\<lambda>_.
                        print (newline # ''Connection closed'')))),
            snd (beginner_main (neo4j_uri environ) (neo4j_user environ)
                   (neo4j_password environ) w)))
   \<and> (environ ''NEO4J_URI'' = None \<and> environ ''NEO4J_USER'' = None
        \<and> environ ''NEO4J_PASSWORD'' = None
        \<longrightarrow> beginner_config environ
              = ([], Inr (''bolt://localhost:7687'', ''neo4j'', ''password'')))"
  by (auto simp: neo4j_uri_def neo4j_user_def neo4j_password_def environ_get_def
      advanced_script_def advanced_client_def beginner_script_def beginner_config_def
      beginner_main_def ret_def raise_def)


text \<open>C6 on an environment that sets the three variables and on the empty one.\<close>

theorem client_arguments_from_environment_witness:
  "neo4j_uri [''NEO4J_URI'' \<mapsto> ''bolt://db:7687'', ''NEO4J_USER'' \<mapsto> ''ada'',
              ''NEO4J_PASSWORD'' \<mapsto> ''s3cret''] = ''bolt://db:7687''
   \<and> neo4j_user [''NEO4J_URI'' \<mapsto> ''bolt://db:7687'', ''NEO4J_USER'' \<mapsto> ''ada'',
              ''NEO4J_PASSWORD'' \<mapsto> ''s3cret''] = ''ada''
   \<and> neo4j_password [''NEO4J_URI'' \<mapsto> ''bolt://db:7687'', ''NEO4J_USER'' \<mapsto> ''ada'',
              ''NEO4J_PASSWORD'' \<mapsto> ''s3cret''] = ''s3cret''
   \<and> neo4j_uri Map.empty = ''bolt://localhost:7687''
   \<and> neo4j_user Map.empty = ''neo4j''
   \<and> neo4j_password Map.empty = ''password''
   \<and> beginner_config Map.empty = ([], Inr (''bolt://localhost:7687'', ''neo4j'', ''password''))"
  using client_arguments_from_environment [where environ = "[''NEO4J_URI'' \<mapsto> ''bolt://db:7687'',
          ''NEO4J_USER'' \<mapsto> ''ada'', ''NEO4J_PASSWORD'' \<mapsto> ''s3cret'']" and w = empty_world]
        client_arguments_from_environment [where environ = Map.empty and w = empty_world]
  by simp






text \<open>
  C8. The chat loop ends, without a graph execution, when the line typed is \<open>exit\<close>
  once lowercased, as \<open>EXIT\<close> and \<open>Exit\<close> are; any other line starts a turn with that
  line as the message. The database is cleared exactly when the answer to the setup
  prompt is \<open>yes\<close> once lowercased.
\<close>

theorem sentinel_and_setup_answers:
  "(lower l = ''exit'' \<longrightarrow> chat_loop w u m n (l # ls) = ([Input ''You: ''], Inr ()))
   \<and> (lower l \<noteq> ''exit'' \<longrightarrow>
        take 3 (fst (chat_loop w u m n (l # ls)))
          = [Input ''You: '', Print ''Assistant: '', Astream n (graph_state u m l)])
   \<and> lower ''EXIT'' = ''exit'' \<and> lower ''Exit'' = ''exit''
   \<and> (stdin w = a # rest \<longrightarrow> (ClearData \<in> set (fst (main w)) \<longleftrightarrow> lower a = ''yes''))"
proof (intro conjI impI)
  show "lower ''EXIT'' = ''exit''" by code_simp
  show "lower ''Exit'' = ''exit''" by code_simp
  show "chat_loop w u m n (l # ls) = ([Input ''You: ''], Inr ())" if "lower l = ''exit''"
    using that by (rule chat_loop_exit)
  show "take 3 (fst (chat_loop w u m n (l # ls)))
          = [Input ''You: '', Print ''Assistant: '', Astream n (graph_state u m l)]"
    if "lower l \<noteq> ''exit''"
    using that by (rule chat_loop_turn)
  show "ClearData \<in> set (fst (main w)) \<longleftrightarrow> lower a = ''yes''" if "stdin w = a # rest"
    using that by (rule main_clear_data)
qed


text \<open>C8 on the lines \<open>Exit\<close> and \<open>exit now\<close> and on the answer \<open>Yes\<close>.\<close>

theorem sentinel_and_setup_answers_witness:
  "lower ''Exit'' = ''exit''
   \<and> chat_loop (shop_world\<lparr>stdin := [''Yes'', ''exit'']\<rparr>) (Some ''u'') (Some ''m'') 0
        [''Exit'', ''hello'']
       = ([Input ''You: ''], Inr ())
   \<and> lower ''exit now'' \<noteq> ''exit''
   \<and> take 3 (fst (chat_loop (shop_world\<lparr>stdin := [''Yes'', ''exit'']\<rparr>) (Some ''u'')
                    (Some ''m'') 0 [''exit now'', ''exit'']))
       = [Input ''You: '', Print ''Assistant: '',
          Astream 0 (graph_state (Some ''u'') (Some ''m'') ''exit now'')]
   \<and> stdin (shop_world\<lparr>stdin := [''Yes'', ''exit'']\<rparr>) = [''Yes'', ''exit'']
   \<and> lower ''Yes'' = ''yes''
   \<and> ClearData \<in> set (fst (main (shop_world\<lparr>stdin := [''Yes'', ''exit'']\<rparr>)))"
proof -
  have e: "lower ''Exit'' = ''exit''" by code_simp
  have n: "lower ''exit now'' \<noteq> ''exit''" by code_simp
  have y: "lower ''Yes'' = ''yes''" by code_simp
  have s: "stdin (shop_world\<lparr>stdin := [''Yes'', ''exit'']\<rparr>) = [''Yes'', ''exit'']" by simp
  show ?thesis
    using e n y s
      sentinel_and_setup_answers [where l = "''Exit''" and u = "Some ''u''" and m = "Some ''m''"
        and n = 0 and ls = "[''hello'']" and w = "shop_world\<lparr>stdin := [''Yes'', ''exit'']\<rparr>"
        and a = "''Yes''" and rest = "[''exit'']"]
      sentinel_and_setup_answers [where l = "''exit now''" and u = "Some ''u''" and m = "Some ''m''"
        and n = 0 and ls = "[''exit'']" and w = "shop_world\<lparr>stdin := [''Yes'', ''exit'']\<rparr>"
        and a = "''Yes''" and rest = "[''exit'']"]
    by simp
qed










end
